theory Spec2Isabelle
  imports Complex_Main "HOL-Library.Word"
begin

section \<open>Sample arrays\<close>

text \<open>
  The samples of a \<open>SoundWave\<close> are a one-dimensional NumPy array. Three element types occur
  in \<open>sound.py\<close>: \<open>np.int16\<close> (named by \<open>export\<close>), the 64-bit floats that \<open>np.sin\<close> and
  \<open>np.linspace\<close> produce, and the complex numbers that \<open>fft\<close> and \<open>ifft\<close> return. A 16-bit
  sample is a \<open>16 word\<close>, read as two's complement, so that its arithmetic wraps as NumPy's
  does. Floats are idealised as exact reals and complex floats as exact complex numbers;
  the non-finite results of a division by zero are written out where \<open>export\<close> divides.
\<close>

datatype ndarray =
    Int16 "16 word list"
  | Float64 "real list"
  | Complex128 "complex list"

fun len :: "ndarray \<Rightarrow> nat" where
  "len (Int16 xs) = length xs"
| "len (Float64 xs) = length xs"
| "len (Complex128 xs) = length xs"

text \<open>Conversions of NumPy's type promotion: \<open>int16 \<rightarrow> float64 \<rightarrow> complex128\<close>.\<close>

definition to_float64 :: "16 word list \<Rightarrow> real list" where
  "to_float64 xs = map (\<lambda>w. real_of_int (sint w)) xs"

definition to_complex128 :: "real list \<Rightarrow> complex list" where
  "to_complex128 xs = map complex_of_real xs"

text \<open>The values of an array as complex numbers, whatever its element type.\<close>

fun as_complex :: "ndarray \<Rightarrow> complex list" where
  "as_complex (Int16 xs) = to_complex128 (to_float64 xs)"
| "as_complex (Float64 xs) = to_complex128 xs"
| "as_complex (Complex128 xs) = xs"

text \<open>
  \<open>a + b\<close> on two arrays of the same length: element-wise, in the promoted element type.
  Two \<open>int16\<close> arrays are added in 16 bits, with wrap-around.
\<close>

fun np_add :: "ndarray \<Rightarrow> ndarray \<Rightarrow> ndarray" where
  "np_add (Int16 xs) (Int16 ys) = Int16 (map2 (+) xs ys)"
| "np_add (Int16 xs) (Float64 ys) = Float64 (map2 (+) (to_float64 xs) ys)"
| "np_add (Int16 xs) (Complex128 ys) = Complex128 (map2 (+) (to_complex128 (to_float64 xs)) ys)"
| "np_add (Float64 xs) (Int16 ys) = Float64 (map2 (+) xs (to_float64 ys))"
| "np_add (Float64 xs) (Float64 ys) = Float64 (map2 (+) xs ys)"
| "np_add (Float64 xs) (Complex128 ys) = Complex128 (map2 (+) (to_complex128 xs) ys)"
| "np_add (Complex128 xs) (Int16 ys) = Complex128 (map2 (+) xs (to_complex128 (to_float64 ys)))"
| "np_add (Complex128 xs) (Float64 ys) = Complex128 (map2 (+) xs (to_complex128 ys))"
| "np_add (Complex128 xs) (Complex128 ys) = Complex128 (map2 (+) xs ys)"

text \<open>\<open>np.concatenate((a, b))\<close>: the elements of \<open>a\<close>, then those of \<open>b\<close>, promoted alike.\<close>

fun np_concatenate :: "ndarray \<Rightarrow> ndarray \<Rightarrow> ndarray" where
  "np_concatenate (Int16 xs) (Int16 ys) = Int16 (xs @ ys)"
| "np_concatenate (Int16 xs) (Float64 ys) = Float64 (to_float64 xs @ ys)"
| "np_concatenate (Int16 xs) (Complex128 ys) = Complex128 (to_complex128 (to_float64 xs) @ ys)"
| "np_concatenate (Float64 xs) (Int16 ys) = Float64 (xs @ to_float64 ys)"
| "np_concatenate (Float64 xs) (Float64 ys) = Float64 (xs @ ys)"
| "np_concatenate (Float64 xs) (Complex128 ys) = Complex128 (to_complex128 xs @ ys)"
| "np_concatenate (Complex128 xs) (Int16 ys) = Complex128 (xs @ to_complex128 (to_float64 ys))"
| "np_concatenate (Complex128 xs) (Float64 ys) = Complex128 (xs @ to_complex128 ys)"
| "np_concatenate (Complex128 xs) (Complex128 ys) = Complex128 (xs @ ys)"

section \<open>Errors\<close>

text \<open>
  Every exception that \<open>sound.py\<close> raises, or that a library call it makes raises, is a value.
  The first three are the \<open>ValueError\<close>s of the \<open>raise\<close> statements of the module, told apart
  by their message: "SoundWaves are not the same length"; "SoundWaves have different sample
  rates" and "The sample rates do not match. Must be the same."; "Cannot generate audio for
  empty note sequence". The others come from the interpreter and the libraries:
  the \<open>KeyError\<close> of a dictionary lookup, the \<open>ZeroDivisionError\<close> of \<open>/\<close>, \<open>max\<close> of an
  empty array, a transform of zero points, a negative pad width, \<open>int\<close> of a non-finite
  float, and a negative number of samples given to \<open>np.linspace\<close>.
\<close>

datatype error =
    LengthMismatch
  | RateMismatch
  | EmptyInput
  | UnsupportedSymbol string
  | ZeroDivision
  | EmptyReduction
  | EmptyTransform
  | NegativePad
  | NonFiniteToInt
  | NegativeCount

definition and_then :: "error + 'a \<Rightarrow> ('a \<Rightarrow> error + 'b) \<Rightarrow> error + 'b" where
  "and_then r f = (case r of Inl e \<Rightarrow> Inl e | Inr x \<Rightarrow> f x)"

section \<open>The SoundWave class\<close>

record SoundWave =
  rate :: int
  samples :: ndarray

text \<open>\<open>__add__\<close>: checks the lengths, never the rates; the result takes the rate of \<open>self\<close>.\<close>

definition add :: "SoundWave \<Rightarrow> SoundWave \<Rightarrow> error + SoundWave" where
  "add self other =
     (if len (samples self) \<noteq> len (samples other) then Inl LengthMismatch
      else let sum_samples = np_add (samples self) (samples other)
           in Inr \<lparr>rate = rate self, samples = sum_samples\<rparr>)"

text \<open>\<open>__rshift__\<close>: checks the rates, then concatenates.\<close>

definition rshift :: "SoundWave \<Rightarrow> SoundWave \<Rightarrow> error + SoundWave" where
  "rshift self other =
     (if rate self \<noteq> rate other then Inl RateMismatch
      else let shift_samples = np_concatenate (samples self) (samples other)
           in Inr \<lparr>rate = rate self, samples = shift_samples\<rparr>)"


section \<open>Library calls\<close>

text \<open>
  \<open>np.pad(a, (0, k), 'constant')\<close> appends \<open>k\<close> zeros of the element type of \<open>a\<close> and raises
  for a negative \<open>k\<close>.
\<close>

fun pad_after :: "ndarray \<Rightarrow> nat \<Rightarrow> ndarray" where
  "pad_after (Int16 xs) k = Int16 (xs @ replicate k 0)"
| "pad_after (Float64 xs) k = Float64 (xs @ replicate k 0)"
| "pad_after (Complex128 xs) k = Complex128 (xs @ replicate k 0)"

definition np_pad :: "ndarray \<Rightarrow> int \<Rightarrow> error + ndarray" where
  "np_pad a k = (if k < 0 then Inl NegativePad else Inr (pad_after a (nat k)))"

text \<open>
  \<open>scipy.fftpack.fft\<close> and \<open>ifft\<close> are the discrete Fourier transform pair: bin \<open>k\<close> of the
  forward transform of \<open>n\<close> points is the sum over \<open>j\<close> of \<open>x j * exp (- 2 pi i j k / n)\<close>,
  and point \<open>j\<close> of the inverse is the sum over \<open>k\<close> of \<open>y k * exp (2 pi i j k / n)\<close>, divided
  by \<open>n\<close>. They are computed here in exact complex arithmetic. Both return a new complex
  array as long as their argument and raise for an argument of no elements.
\<close>

definition fft :: "ndarray \<Rightarrow> error + complex list" where
  "fft a =
     (let x = as_complex a; n = length x
      in if n = 0 then Inl EmptyTransform
         else Inr (map (\<lambda>k. \<Sum>j\<leftarrow>[0..<n]. x ! j * cis (- (2 * pi * real (j * k) / real n)))
                    [0..<n]))"

definition ifft :: "complex list \<Rightarrow> error + complex list" where
  "ifft y =
     (let n = length y
      in if n = 0 then Inl EmptyTransform
         else Inr (map (\<lambda>j. (\<Sum>k\<leftarrow>[0..<n]. y ! k * cis (2 * pi * real (j * k) / real n)) / of_nat n)
                    [0..<n]))"

text \<open>\<open>np.multiply\<close> on two complex arrays of the same length.\<close>

definition np_multiply :: "complex list \<Rightarrow> complex list \<Rightarrow> complex list" where
  "np_multiply xs ys = map2 (*) xs ys"

text \<open>
  Python's \<open>int\<close> of a finite float truncates towards zero. \<open>int(np.ceil(np.log2(x)))\<close>
  raises for \<open>x \<le> 0\<close>, where the logarithm is \<open>nan\<close> or \<open>-inf\<close>.
\<close>

definition py_int :: "real \<Rightarrow> int" where
  "py_int x = (if 0 \<le> x then \<lfloor>x\<rfloor> else \<lceil>x\<rceil>)"

definition ceil_log2 :: "int \<Rightarrow> error + nat" where
  "ceil_log2 x = (if x \<le> 0 then Inl NonFiniteToInt else Inr (nat \<lceil>log 2 (real_of_int x)\<rceil>))"

text \<open>
  A bound of a Python slice over a sequence of \<open>n\<close> elements: a negative bound counts from
  the end, and every bound is clipped to \<open>0 .. n\<close>. \<open>xs[:stop]\<close> reads up to the bound;
  \<open>xs[start:stop] = 0\<close> on an array overwrites what lies between the bounds, if anything.
\<close>

definition slice_index :: "int \<Rightarrow> nat \<Rightarrow> nat" where
  "slice_index i n =
     (if i < 0 then (if i + int n < 0 then 0 else nat (i + int n))
      else (if int n < i then n else nat i))"

definition slice_to :: "'a list \<Rightarrow> int \<Rightarrow> 'a list" where
  "slice_to xs stop = take (slice_index stop (length xs)) xs"

definition set_slice_zero :: "complex list \<Rightarrow> int \<Rightarrow> int \<Rightarrow> complex list" where
  "set_slice_zero xs start stop =
     (let n = length xs; s = slice_index start n; e = slice_index stop n
      in if s < e then take s xs @ replicate (e - s) 0 @ drop e xs else xs)"

section \<open>Convolution and filtering\<close>

text \<open>
  \<open>__mul__\<close>: after the rate check, \<open>f\<close> is padded by the absolute difference of the two
  lengths, then \<open>g\<close> by the absolute difference of the length of the padded \<open>f\<close> and its own.
\<close>

definition mul :: "SoundWave \<Rightarrow> SoundWave \<Rightarrow> error + SoundWave" where
  "mul self other =
     (if rate self \<noteq> rate other then Inl RateMismatch
      else
        let f = samples self; g = samples other
        in and_then (np_pad f \<bar>int (len g) - int (len f)\<bar>) (\<lambda>f.
           and_then (np_pad g \<bar>int (len f) - int (len g)\<bar>) (\<lambda>g.
           and_then (fft f) (\<lambda>ft.
           and_then (fft g) (\<lambda>gt.
           and_then (ifft (np_multiply ft gt)) (\<lambda>conv.
           Inr \<lparr>rate = rate self, samples = Complex128 conv\<rparr>))))))"

text \<open>\<open>__pow__\<close>: both arrays are padded to \<open>2 ** a\<close> elements, the product is cut at \<open>m + n - 1\<close>.\<close>

definition pow :: "SoundWave \<Rightarrow> SoundWave \<Rightarrow> error + SoundWave" where
  "pow self other =
     (if rate self \<noteq> rate other then Inl RateMismatch
      else
        let f = samples self; g = samples other;
            m = int (len f); n = int (len g)
        in and_then (ceil_log2 (n + m - 1)) (\<lambda>a.
           and_then (np_pad f (2 ^ a - m)) (\<lambda>f.
           and_then (np_pad g (2 ^ a - n)) (\<lambda>g.
           and_then (fft f) (\<lambda>ft.
           and_then (fft g) (\<lambda>gt.
           and_then (ifft (np_multiply ft gt)) (\<lambda>conv.
           Inr \<lparr>rate = rate self, samples = Complex128 (slice_to conv (m + n - 1))\<rparr>)))))))"

text \<open>
  \<open>clean\<close>: \<open>len(self.samples) / self.rate\<close> is Python's true division, which raises when
  the rate is zero; the two bin indices are truncated with \<open>int\<close>. The result is the
  object with its samples replaced.
\<close>

definition clean :: "SoundWave \<Rightarrow> real \<Rightarrow> real \<Rightarrow> error + SoundWave" where
  "clean self low_freq high_freq =
     (if rate self = 0 then Inl ZeroDivision
      else
        let k_low = py_int (low_freq * (real (len (samples self)) / real_of_int (rate self)));
            k_high = py_int (high_freq * (real (len (samples self)) / real_of_int (rate self)))
        in and_then (fft (samples self)) (\<lambda>dft.
           let n = int (length dft);
               dft = set_slice_zero dft k_low k_high;
               dft = set_slice_zero dft (n - k_high) (n - k_low)
           in and_then (ifft dft) (\<lambda>clean.
              Inr (self\<lparr>samples := Complex128 clean\<rparr>))))"

section \<open>Export\<close>

text \<open>
  A quotient of floats is finite, or not: NumPy divides by zero without raising and gives
  \<open>nan\<close> or an infinity. The cast of a float to \<open>np.int16\<close> truncates towards zero; what it
  gives for a non-finite float, or for one outside the 16-bit range, is not defined by
  NumPy and is kept apart from every sample value.
\<close>

datatype 'a ieee = Finite 'a | NonFinite

datatype pcm = Pcm "16 word" | Unspecified

record wav =
  wav_rate :: int
  wav_data :: "pcm list"

text \<open>\<open>abs(samples).max()\<close>: the absolute value of \<open>-32768\<close> in 16 bits is \<open>-32768\<close> again.\<close>

definition abs16 :: "16 word \<Rightarrow> 16 word" where
  "abs16 w = (if sint w < 0 then - w else w)"

fun np_abs :: "ndarray \<Rightarrow> real list" where
  "np_abs (Int16 xs) = map (\<lambda>w. real_of_int (sint (abs16 w))) xs"
| "np_abs (Float64 xs) = map abs xs"
| "np_abs (Complex128 xs) = map cmod xs"

definition np_max :: "real list \<Rightarrow> error + real" where
  "np_max xs = (if xs = [] then Inl EmptyReduction else Inr (Max (set xs)))"

definition true_divide :: "complex \<Rightarrow> real \<Rightarrow> complex ieee" where
  "true_divide x d = (if d = 0 then NonFinite else Finite (x / complex_of_real d))"

fun times_ieee :: "complex ieee \<Rightarrow> complex \<Rightarrow> complex ieee" where
  "times_ieee (Finite x) c = Finite (x * c)"
| "times_ieee NonFinite c = NonFinite"

fun real_ieee :: "complex ieee \<Rightarrow> real ieee" where
  "real_ieee (Finite x) = Finite (Re x)"
| "real_ieee NonFinite = NonFinite"

fun astype_int16 :: "real ieee \<Rightarrow> pcm" where
  "astype_int16 (Finite x) =
     (if - 32768 \<le> py_int x \<and> py_int x \<le> 32767 then Pcm (word_of_int (py_int x))
      else Unspecified)"
| "astype_int16 NonFinite = Unspecified"

fun is_int16 :: "ndarray \<Rightarrow> bool" where
  "is_int16 (Int16 xs) = True"
| "is_int16 (Float64 xs) = False"
| "is_int16 (Complex128 xs) = False"

text \<open>
  The samples handed to the writer when no scaling took place. Only an \<open>int16\<close> array
  gets there, since every other array is scaled; the other two equations are never used.
\<close>

fun int16_data :: "ndarray \<Rightarrow> 16 word list" where
  "int16_data (Int16 xs) = xs"
| "int16_data (Float64 xs) = []"
| "int16_data (Complex128 xs) = []"

text \<open>
  \<open>export\<close>: the result is the file that \<open>wavfile.write\<close> is given to write, its rate and
  its 16-bit data. \<open>export\<close> has no \<open>raise\<close> of its own; \<open>max\<close> of an empty array is the
  one library call in it that can fail.
\<close>

definition export :: "SoundWave \<Rightarrow> bool \<Rightarrow> error + wav" where
  "export self force =
     (if \<not> is_int16 (samples self) \<or> force then
        and_then (np_max (np_abs (samples self))) (\<lambda>peak.
          let scaled = map (\<lambda>x. true_divide x peak) (as_complex (samples self));
              scaled = map (\<lambda>q. times_ieee q 32767) scaled;
              scaled = map real_ieee scaled;
              scaled = map astype_int16 scaled
          in Inr \<lparr>wav_rate = rate self, wav_data = scaled\<rparr>)
      else Inr \<lparr>wav_rate = rate self, wav_data = map Pcm (int16_data (samples self))\<rparr>)"

section \<open>Synthesis\<close>

definition NOTE_FREQ :: "string \<rightharpoonup> real" where
  "NOTE_FREQ =
     [''C'' \<mapsto> 261.6256, ''D'' \<mapsto> 293.6648, ''E'' \<mapsto> 329.6276,
      ''F'' \<mapsto> 349.2282, ''G'' \<mapsto> 391.9954]"

text \<open>
  \<open>np.linspace(start, stop, num)\<close>: \<open>num\<close> points from \<open>start\<close> to \<open>stop\<close>, both included;
  a negative \<open>num\<close> raises.
\<close>

definition linspace :: "real \<Rightarrow> real \<Rightarrow> int \<Rightarrow> error + real list" where
  "linspace start stop num =
     (if num < 0 then Inl NegativeCount
      else if num = 1 then Inr [start]
      else Inr (map (\<lambda>i. start + real i * ((stop - start) / real (nat num - 1))) [0..<nat num]))"

text \<open>\<open>generate_note\<close>, with the duration a Python integer as its default value is.\<close>

definition generate_note :: "real \<Rightarrow> int \<Rightarrow> error + SoundWave" where
  "generate_note frequency duration =
     (let rate = 44100; N = rate * duration
      in and_then (linspace 0 (real_of_int duration) N) (\<lambda>x.
         let samples = map (\<lambda>t. sin (2 * pi * t * frequency)) x
         in Inr \<lparr>rate = rate, samples = Float64 samples\<rparr>))"

text \<open>The list comprehension over \<open>NOTE_FREQ\<close>: the first missing key raises.\<close>

fun lookup_all :: "string list \<Rightarrow> error + real list" where
  "lookup_all [] = Inr []"
| "lookup_all (note # notes) =
     (case NOTE_FREQ note of
        None \<Rightarrow> Inl (UnsupportedSymbol note)
      | Some freq \<Rightarrow> and_then (lookup_all notes) (\<lambda>hertz. Inr (freq # hertz)))"

text \<open>The loop of \<open>audio_sequence\<close> over \<open>hertz[1:]\<close>, with \<open>audio\<close> its variable.\<close>

fun shift_all :: "SoundWave \<Rightarrow> real list \<Rightarrow> int \<Rightarrow> error + SoundWave" where
  "shift_all audio [] duration = Inr audio"
| "shift_all audio (freq # hertz) duration =
     and_then (generate_note freq duration) (\<lambda>note.
     and_then (rshift audio note) (\<lambda>audio.
     shift_all audio hertz duration))"

definition audio_sequence :: "string list \<Rightarrow> int \<Rightarrow> error + SoundWave" where
  "audio_sequence note_sequence duration =
     (if length note_sequence = 0 then Inl EmptyInput
      else and_then (lookup_all note_sequence) (\<lambda>hertz.
           and_then (generate_note (hd hertz) duration) (\<lambda>audio.
           shift_all audio (tl hertz) duration)))"

section \<open>Objects\<close>










section \<open>Properties of the library calls\<close>

lemma and_then_Inr [simp]: "and_then (Inr x) f = f x"
  by (simp add: and_then_def)

lemma and_then_Inl [simp]: "and_then (Inl e) f = Inl e"
  by (simp add: and_then_def)

lemma and_then_eq_Inl:
  "and_then r f = Inl e \<longleftrightarrow> r = Inl e \<or> (\<exists>x. r = Inr x \<and> f x = Inl e)"
  by (cases r) simp_all

lemma length_to_float64 [simp]: "length (to_float64 xs) = length xs"
  by (simp add: to_float64_def)

lemma length_to_complex128 [simp]: "length (to_complex128 xs) = length xs"
  by (simp add: to_complex128_def)

lemma to_float64_append [simp]: "to_float64 (xs @ ys) = to_float64 xs @ to_float64 ys"
  by (simp add: to_float64_def)

lemma to_complex128_append [simp]:
  "to_complex128 (xs @ ys) = to_complex128 xs @ to_complex128 ys"
  by (simp add: to_complex128_def)

lemma length_as_complex [simp]: "length (as_complex a) = len a"
  by (cases a) simp_all

lemma as_complex_empty [simp]: "as_complex a = [] \<longleftrightarrow> len a = 0"
  by (cases a) (simp_all add: to_complex128_def to_float64_def)

lemma map2_add_commute:
  fixes xs ys :: "'a::ab_semigroup_add list"
  shows "map2 (+) xs ys = map2 (+) ys xs"
proof (induction xs arbitrary: ys)
  case Nil
  then show ?case by simp
next
  case (Cons x xs)
  then show ?case by (cases ys) (simp_all add: add.commute)
qed

lemma np_add_commute: "np_add a b = np_add b a"
  by (cases a; cases b) (simp_all add: map2_add_commute)

lemma len_np_add: "len (np_add a b) = min (len a) (len b)"
  by (cases a; cases b) simp_all

lemma len_np_concatenate [simp]: "len (np_concatenate a b) = len a + len b"
  by (cases a; cases b) simp_all

lemma as_complex_np_concatenate [simp]:
  "as_complex (np_concatenate a b) = as_complex a @ as_complex b"
  by (cases a; cases b) simp_all

lemma np_concatenate_assoc:
  "np_concatenate (np_concatenate a b) c = np_concatenate a (np_concatenate b c)"
  by (cases a; cases b; cases c) simp_all

lemma len_pad_after [simp]: "len (pad_after a k) = len a + k"
  by (cases a) simp_all

lemma np_pad_ok: "0 \<le> k \<Longrightarrow> np_pad a k = Inr (pad_after a (nat k))"
  by (simp add: np_pad_def)

lemma fft_ok: "0 < len a \<Longrightarrow> \<exists>ft. fft a = Inr ft \<and> length ft = len a"
  by (simp add: fft_def Let_def)

lemma ifft_ok: "0 < length y \<Longrightarrow> \<exists>x. ifft y = Inr x \<and> length x = length y"
  by (simp add: ifft_def Let_def)



lemma length_np_multiply [simp]: "length (np_multiply xs ys) = min (length xs) (length ys)"
  by (simp add: np_multiply_def)

text \<open>Two arrays of the same positive length go through the transforms and keep their length.\<close>

lemma convolve_padded:
  assumes "len f = len g" and "0 < len f"
  shows "\<exists>ft gt conv. fft f = Inr ft \<and> fft g = Inr gt \<and> ifft (np_multiply ft gt) = Inr conv \<and>
           length conv = len f"
proof -
  from fft_ok [OF assms(2)] obtain ft where ft: "fft f = Inr ft" "length ft = len f" by blast
  from assms have "0 < len g" by simp
  from fft_ok [OF this] obtain gt where gt: "fft g = Inr gt" "length gt = len g" by blast
  have "0 < length (np_multiply ft gt)" using ft gt assms by simp
  from ifft_ok [OF this] obtain conv
    where "ifft (np_multiply ft gt) = Inr conv" "length conv = length (np_multiply ft gt)"
    by blast
  with ft gt assms show ?thesis by simp
qed

lemma np_pad_not_rate: "np_pad a k \<noteq> Inl RateMismatch"
  by (simp add: np_pad_def)

lemma fft_not_rate: "fft a \<noteq> Inl RateMismatch"
  by (simp add: fft_def Let_def)

lemma ifft_not_rate: "ifft y \<noteq> Inl RateMismatch"
  by (simp add: ifft_def Let_def)

lemma ceil_log2_not_rate: "ceil_log2 x \<noteq> Inl RateMismatch"
  by (simp add: ceil_log2_def)

section \<open>Circular convolution\<close>

text \<open>
  The length of the result of \<open>__mul__\<close>. When \<open>self\<close> is not the longer operand, \<open>f\<close> is
  padded to the length of \<open>g\<close> and \<open>g\<close> is left as it is. When \<open>self\<close> is the longer one,
  \<open>f\<close> is padded all the same, by the difference, and \<open>g\<close> is then padded to that length.
\<close>

lemma mul_length:
  assumes "rate a = rate b" and "0 < len (samples a) \<or> 0 < len (samples b)"
  shows "\<exists>w. mul a b = Inr w \<and> rate w = rate a \<and>
           len (samples w) =
             (if len (samples a) \<le> len (samples b) then len (samples b)
              else 2 * len (samples a) - len (samples b))"
proof -
  define m n where "m = len (samples a)" and "n = len (samples b)"
  define f where "f = pad_after (samples a) (nat \<bar>int n - int m\<bar>)"
  define g where "g = pad_after (samples b) (nat \<bar>int (len f) - int n\<bar>)"
  have pf: "np_pad (samples a) \<bar>int (len (samples b)) - int (len (samples a))\<bar> = Inr f"
    by (simp add: np_pad_def f_def m_def n_def)
  have pg: "np_pad (samples b) \<bar>int (len f) - int (len (samples b))\<bar> = Inr g"
    by (simp add: np_pad_def g_def n_def)
  have lf: "len f = (if m \<le> n then n else 2 * m - n)"
    by (auto simp: f_def m_def)
  have lg: "len g = len f"
    by (auto simp: g_def lf n_def [symmetric])
  have pos: "0 < len f"
    using assms(2) by (auto simp: lf m_def n_def)
  from convolve_padded [OF lg [symmetric] pos] obtain ft gt conv
    where c: "fft f = Inr ft" "fft g = Inr gt" "ifft (np_multiply ft gt) = Inr conv"
      "length conv = len f"
    by blast
  have "rate a \<noteq> rate b \<longleftrightarrow> False" using assms(1) by simp
  then have "mul a b = Inr \<lparr>rate = rate a, samples = Complex128 conv\<rparr>"
    by (simp only: mul_def Let_def if_False pf pg c and_then_Inr)
  with c(4) lf show ?thesis by (simp add: m_def n_def)
qed

text \<open>
  C1. For two waveforms of the same rate, \<open>ConvolveCircular\<close> is to pad the shorter
  sequence to the length of the longer, so that the result has as many samples as the
  longer operand, also when the first operand is the longer one. Here the first operand
  has two samples and the second has one, and the result of \<open>__mul__\<close> has three samples,
  not two.
\<close>

theorem mul_longer_first:
  "\<exists>w. mul \<lparr>rate = 44100, samples = Float64 [1, 2]\<rparr> \<lparr>rate = 44100, samples = Float64 [1]\<rparr> = Inr w
     \<and> len (samples w) = 3"
  using mul_length [of "\<lparr>rate = 44100, samples = Float64 [1, 2]\<rparr>"
      "\<lparr>rate = 44100, samples = Float64 [1]\<rparr>"]
  by auto

section \<open>Export of a silent buffer\<close>

lemma abs16_zero [simp]: "abs16 0 = 0"
  by (simp add: abs16_def)

lemma silent_int16:
  assumes "as_complex (Int16 xs) = replicate n 0"
  shows "xs = replicate n 0"
proof -
  from assms have l: "length xs = n"
    by (metis length_as_complex len.simps(1) length_replicate)
  have "xs ! i = 0" if "i < n" for i
  proof -
    from assms that l have "complex_of_real (real_of_int (sint (xs ! i))) = 0"
      by (metis as_complex.simps(1) length_map nth_map nth_replicate to_complex128_def
          to_float64_def)
    then have "sint (xs ! i) = 0" by (simp only: of_real_eq_0_iff of_int_eq_0_iff)
    then show ?thesis by (simp only: signed_eq_0_iff)
  qed
  with l show ?thesis by (simp add: list_eq_iff_nth_eq)
qed

lemma silent_float64:
  assumes "as_complex (Float64 xs) = replicate n 0"
  shows "xs = replicate n 0"
proof -
  from assms have "map complex_of_real xs = map complex_of_real (replicate n 0)"
    by (simp add: to_complex128_def)
  then show ?thesis by (simp only: inj_map_eq_map [OF inj_of_real])
qed

lemma np_abs_silent:
  assumes "as_complex a = replicate n 0"
  shows "np_abs a = replicate n 0"
proof (cases a)
  case (Int16 xs)
  with assms have "xs = replicate n 0" by (simp add: silent_int16)
  with Int16 show ?thesis by simp
next
  case (Float64 xs)
  with assms have "xs = replicate n 0" by (simp add: silent_float64)
  with Float64 show ?thesis by simp
next
  case (Complex128 xs)
  with assms show ?thesis by simp
qed

lemma np_max_zeros: "0 < n \<Longrightarrow> np_max (replicate n 0) = Inr 0"
  by (simp add: np_max_def)

text \<open>
  C2, as the claim states it: \<open>Export\<close> of a waveform whose samples are all zero fails with
  a normalization error. It does not: for two float samples \<open>0.0\<close> the call returns, and the
  file is given two 16-bit values, each the cast of the non-finite quotient \<open>0.0 / 0.0\<close>.
\<close>

theorem export_silent_floats_written:
  "export \<lparr>rate = 44100, samples = Float64 [0, 0]\<rparr> False =
     Inr \<lparr>wav_rate = 44100, wav_data = [Unspecified, Unspecified]\<rparr>"
  by (simp add: export_def np_max_def true_divide_def Let_def to_complex128_def)

text \<open>
  C2, amended: for every waveform of \<open>n \<ge> 1\<close> samples that are all zero, \<open>Export\<close> does not
  fail. When the samples are not \<open>int16\<close>, or scaling is forced, the peak is zero, every
  quotient is non-finite, and the file is given \<open>n\<close> values that are casts of a non-finite
  float. When the samples are \<open>int16\<close> and scaling is not forced, nothing is normalized and
  the \<open>n\<close> zeros are written as they are.
\<close>

theorem export_silent:
  assumes "as_complex (samples w) = replicate n 0" and "0 < n"
  shows "export w force =
           Inr \<lparr>wav_rate = rate w,
                wav_data = (if \<not> is_int16 (samples w) \<or> force then replicate n Unspecified
                            else replicate n (Pcm 0))\<rparr>"
proof (cases "\<not> is_int16 (samples w) \<or> force")
  case True
  have "np_max (np_abs (samples w)) = Inr 0"
    using assms by (simp add: np_abs_silent np_max_zeros)
  with True assms(1) show ?thesis
    by (simp add: export_def Let_def true_divide_def)
next
  case False
  then obtain xs where xs: "samples w = Int16 xs" by (cases "samples w") simp_all
  with assms(1) have "xs = replicate n 0" by (simp add: silent_int16)
  with False xs show ?thesis by (simp add: export_def)
qed

theorem export_silent_witness:
  "export \<lparr>rate = 8000, samples = Int16 [0, 0, 0]\<rparr> True =
     Inr \<lparr>wav_rate = 8000, wav_data = [Unspecified, Unspecified, Unspecified]\<rparr> \<and>
   export \<lparr>rate = 8000, samples = Int16 [0, 0, 0]\<rparr> False =
     Inr \<lparr>wav_rate = 8000, wav_data = [Pcm 0, Pcm 0, Pcm 0]\<rparr>"
  using export_silent [of "\<lparr>rate = 8000, samples = Int16 [0, 0, 0]\<rparr>" 3 True]
    export_silent [of "\<lparr>rate = 8000, samples = Int16 [0, 0, 0]\<rparr>" 3 False]
  by (simp add: to_complex128_def to_float64_def numeral_3_eq_3)

section \<open>Removal of the full band\<close>

lemma py_int_of_nat [simp]: "py_int (real n) = int n"
  by (simp add: py_int_def)

lemma py_int_zero [simp]: "py_int 0 = 0"
  by (simp add: py_int_def)

lemma py_int_half: "py_int (real n / 2) = int (n div 2)"
proof -
  have "\<lfloor>real n / 2\<rfloor> = int n div 2"
    using floor_divide_of_int_eq [of "int n" 2, where ?'a = real] by simp
  then show ?thesis by (simp add: py_int_def zdiv_int)
qed



lemma slice_index_of_nat: "slice_index (int k) n = min k n"
  by (simp add: slice_index_def)

lemma length_set_slice_zero [simp]: "length (set_slice_zero xs i j) = length xs"
proof -
  have "slice_index j (length xs) \<le> length xs"
    unfolding slice_index_def by (auto; linarith)
  then show ?thesis by (simp add: set_slice_zero_def Let_def)
qed


lemma py_int_half_odd: "py_int (real (2 * h + 1) / 2) = int h"
  using py_int_half [of "2 * h + 1"] by simp

text \<open>With \<open>2 * h + 1\<close> bins, the same two slices leave bin \<open>h\<close> as it is.\<close>

lemma zero_around_middle:
  assumes "length xs = 2 * h + 1"
  shows "set_slice_zero (set_slice_zero xs 0 (int h)) (int (length xs) - int h) (int (length xs) - 0)
         = replicate h 0 @ [xs ! h] @ replicate h 0"
proof -
  define ys where "ys = set_slice_zero xs 0 (int h)"
  have "slice_index 0 (length xs) = 0"
    using slice_index_of_nat [of 0 "length xs"] by simp
  moreover have "slice_index (int h) (length xs) = h"
    using assms by (simp add: slice_index_of_nat)
  ultimately have ys: "ys = replicate h 0 @ drop h xs"
    by (simp add: ys_def set_slice_zero_def Let_def)
  then have lys: "length ys = 2 * h + 1" using assms by simp
  have "int (length xs) - int h = int (h + 1)" using assms by simp
  then have s: "slice_index (int (length xs) - int h) (length ys) = h + 1"
    using lys by (simp only: slice_index_of_nat)
  have e: "slice_index (int (length xs) - 0) (length ys) = 2 * h + 1"
    using lys assms slice_index_of_nat [of "2 * h + 1" "2 * h + 1"] by simp
  have "set_slice_zero ys (int (length xs) - int h) (int (length xs) - 0) =
          (if h + 1 < 2 * h + 1 then take (h + 1) ys @ replicate (2 * h + 1 - (h + 1)) 0 @ drop (2 * h + 1) ys
           else ys)"
    by (simp only: set_slice_zero_def Let_def s e)
  also have "\<dots> = replicate h 0 @ [xs ! h] @ replicate h 0"
  proof -
    have d: "drop h xs = xs ! h # drop (Suc h) xs"
      using assms by (simp add: Cons_nth_drop_Suc)
    show ?thesis
    proof (cases "h = 0")
      case True
      with assms d show ?thesis by (simp add: ys)
    next
      case False
      with lys assms d show ?thesis by (simp add: ys)
    qed
  qed
  finally show ?thesis by (simp only: ys_def)
qed

text \<open>
  With \<open>2 * h + 1\<close> samples, \<open>clean\<close> over the full band keeps bin \<open>h\<close> of the transform:
  the samples it leaves are the inverse transform of that one bin.
\<close>

lemma clean_full_band_odd:
  assumes "rate w \<noteq> 0" and "len (samples w) = 2 * h + 1"
  shows "\<exists>dft. fft (samples w) = Inr dft \<and>
           clean w 0 (real_of_int (rate w) / 2) =
             and_then (ifft (replicate h 0 @ [dft ! h] @ replicate h 0))
               (\<lambda>c. Inr (w\<lparr>samples := Complex128 c\<rparr>))"
proof -
  have "0 < len (samples w)" using assms(2) by simp
  from fft_ok [OF this] obtain dft
    where dft: "fft (samples w) = Inr dft" "length dft = 2 * h + 1"
    by (auto simp: assms(2))
  have z: "set_slice_zero (set_slice_zero dft 0 (int h)) (int (length dft) - int h) (int (length dft))
            = replicate h 0 @ [dft ! h] @ replicate h 0"
    using zero_around_middle [OF dft(2)] by simp
  have k: "py_int (real_of_int (rate w) / 2 * (real (2 * h + 1) / real_of_int (rate w))) = int h"
  proof -
    have "real_of_int (rate w) / 2 * (real (2 * h + 1) / real_of_int (rate w)) = real (2 * h + 1) / 2"
      using assms(1) by simp
    then show ?thesis by (simp only: py_int_half_odd)
  qed
  have "rate w = 0 \<longleftrightarrow> False" using assms(1) by simp
  then have "clean w 0 (real_of_int (rate w) / 2) =
      and_then (ifft (replicate h 0 @ [dft ! h] @ replicate h 0))
        (\<lambda>c. Inr (w\<lparr>samples := Complex128 c\<rparr>))"
    using z by (simp only: clean_def Let_def if_False assms(2) k dft and_then_Inr mult_zero_left
        py_int_zero diff_zero)
  with dft(1) show ?thesis by blast
qed




section \<open>Linear convolution\<close>

text \<open>For \<open>x \<ge> 1\<close>, \<open>2 ** a\<close> is the least power of two that is greater than or equal to \<open>x\<close>.\<close>

lemma ceil_log2_least:
  assumes "0 < x"
  shows "\<exists>k. ceil_log2 x = Inr k \<and> x \<le> 2 ^ k \<and> (\<forall>j. x \<le> 2 ^ j \<longrightarrow> k \<le> j)"
proof -
  define k where "k = nat \<lceil>log 2 (real_of_int x)\<rceil>"
  from assms have x1: "1 \<le> real_of_int x" by simp
  then have "0 \<le> log 2 (real_of_int x)" by simp
  then have k0: "0 \<le> \<lceil>log 2 (real_of_int x)\<rceil>" by linarith
  have "real_of_int x = 2 powr log 2 (real_of_int x)"
    using x1 by simp
  also have "\<dots> \<le> 2 powr real_of_int \<lceil>log 2 (real_of_int x)\<rceil>"
    by (simp add: powr_mono)
  also have "\<dots> = 2 powr real k"
    using k0 by (simp add: k_def)
  also have "\<dots> = 2 ^ k"
    by (simp add: powr_realpow)
  finally have "real_of_int x \<le> real_of_int (2 ^ k)" by simp
  then have up: "x \<le> 2 ^ k" by linarith
  have least: "k \<le> j" if "x \<le> 2 ^ j" for j
  proof -
    from that have "real_of_int x \<le> real_of_int (2 ^ j)" by linarith
    then have "real_of_int x \<le> 2 powr real j" by (simp add: powr_realpow)
    moreover have "0 < real_of_int x" using x1 by linarith
    ultimately have "log 2 (real_of_int x) \<le> real j"
      using log_le_iff [of 2 "real_of_int x" "real j"] by simp
    then have "\<lceil>log 2 (real_of_int x)\<rceil> \<le> \<lceil>real j\<rceil>" by (rule ceiling_mono)
    then have "\<lceil>log 2 (real_of_int x)\<rceil> \<le> int j" by simp
    then show ?thesis unfolding k_def by linarith
  qed
  have "ceil_log2 x = Inr k" using assms by (simp add: ceil_log2_def k_def)
  with up least show ?thesis by blast
qed

lemma slice_to_take: "0 \<le> k \<Longrightarrow> nat k \<le> length xs \<Longrightarrow> slice_to xs k = take (nat k) xs"
  by (auto simp: slice_to_def slice_index_def)

lemma pad_to_power:
  assumes "m \<le> 2 ^ k"
  shows "np_pad a (2 ^ k - int m) = Inr (pad_after a (2 ^ k - m))"
proof -
  have "nat (2 ^ k - int m) = 2 ^ k - m"
    by (simp add: nat_diff_distrib' nat_power_eq)
  moreover have "0 \<le> 2 ^ k - int m"
    using assms by (metis diff_ge_0_iff_ge of_nat_le_iff of_nat_numeral of_nat_power)
  ultimately show ?thesis by (simp add: np_pad_def)
qed

text \<open>
  C4. For two waveforms of the same rate with \<open>m \<ge> 1\<close> and \<open>n \<ge> 1\<close> samples,
  \<open>ConvolveLinear\<close> returns a waveform of that rate with exactly \<open>m + n - 1\<close> samples. Both
  sequences are padded with zeros to \<open>2 ^ k\<close> samples, \<open>2 ^ k\<close> the least power of two that
  is at least \<open>m + n - 1\<close>; the two forward transforms are multiplied element by element,
  the product is transformed back, and the result is its first \<open>m + n - 1\<close> samples.
  (The logarithm is exact here; the code takes it in floating point.)
\<close>

theorem pow_length:
  assumes "rate a = rate b" and "0 < len (samples a)" and "0 < len (samples b)"
  shows "\<exists>w k ft gt conv.
     pow a b = Inr w \<and> rate w = rate a \<and>
     len (samples w) = len (samples a) + len (samples b) - 1 \<and>
     len (samples a) + len (samples b) - 1 \<le> 2 ^ k \<and>
     (\<forall>j. len (samples a) + len (samples b) - 1 \<le> 2 ^ j \<longrightarrow> k \<le> j) \<and>
     fft (pad_after (samples a) (2 ^ k - len (samples a))) = Inr ft \<and>
     fft (pad_after (samples b) (2 ^ k - len (samples b))) = Inr gt \<and>
     ifft (np_multiply ft gt) = Inr conv \<and> length conv = 2 ^ k \<and>
     samples w = Complex128 (take (len (samples a) + len (samples b) - 1) conv)"
proof -
  define m n where "m = len (samples a)" and "n = len (samples b)"
  have pos: "0 < int n + int m - 1" using assms(2,3) by (simp add: m_def n_def)
  from ceil_log2_least [OF pos] obtain k where k:
    "ceil_log2 (int n + int m - 1) = Inr k" "int n + int m - 1 \<le> 2 ^ k"
    "\<forall>j. int n + int m - 1 \<le> 2 ^ j \<longrightarrow> k \<le> j"
    by blast
  have le: "m + n - 1 \<le> 2 ^ k"
  proof -
    have "int (m + n - 1) \<le> int (2 ^ k)" using k(2) pos by simp
    then show ?thesis by (simp only: of_nat_le_iff)
  qed
  have least: "\<forall>j. m + n - 1 \<le> 2 ^ j \<longrightarrow> k \<le> j"
  proof (intro allI impI)
    fix j assume "m + n - 1 \<le> 2 ^ j"
    then have "int (m + n - 1) \<le> int (2 ^ j)" by (simp only: of_nat_le_iff)
    then have "int n + int m - 1 \<le> 2 ^ j" using pos by simp
    with k(3) show "k \<le> j" by blast
  qed
  have mk: "m \<le> 2 ^ k" and nk: "n \<le> 2 ^ k"
    using le assms(2,3) by (simp_all add: m_def n_def)
  define f where "f = pad_after (samples a) (2 ^ k - m)"
  define g where "g = pad_after (samples b) (2 ^ k - n)"
  have pf: "np_pad (samples a) (2 ^ k - int m) = Inr f"
    using pad_to_power [OF mk] by (simp add: f_def)
  have pg: "np_pad (samples b) (2 ^ k - int n) = Inr g"
    using pad_to_power [OF nk] by (simp add: g_def)
  have lf: "len f = 2 ^ k" using mk by (simp add: f_def m_def)
  have lg: "len g = 2 ^ k" using nk by (simp add: g_def n_def)
  have "len f = len g" "0 < len f" using lf lg by simp_all
  from convolve_padded [OF this] obtain ft gt conv
    where c: "fft f = Inr ft" "fft g = Inr gt" "ifft (np_multiply ft gt) = Inr conv"
      "length conv = len f"
    by blast
  have cut: "slice_to conv (int m + int n - 1) = take (m + n - 1) conv"
  proof -
    have "nat (int m + int n - 1) = m + n - 1" by simp
    moreover have "0 \<le> int m + int n - 1" using pos by simp
    moreover have "m + n - 1 \<le> length conv" using c(4) lf le by simp
    ultimately show ?thesis using slice_to_take [of "int m + int n - 1" conv] by simp
  qed
  have run: "pow a b = Inr \<lparr>rate = rate a, samples = Complex128 (take (m + n - 1) conv)\<rparr>"
    using assms(1) k(1) pf pg c cut
    by (simp add: pow_def Let_def m_def [symmetric] n_def [symmetric])
  have "length (take (m + n - 1) conv) = m + n - 1"
    using c(4) lf le by simp
  with run le least c lf show ?thesis
    unfolding f_def g_def m_def n_def by auto
qed

theorem pow_length_witness:
  "\<exists>w. pow \<lparr>rate = 8000, samples = Float64 [1, 2]\<rparr> \<lparr>rate = 8000, samples = Int16 [3, 4, 5]\<rparr> = Inr w
     \<and> rate w = 8000 \<and> len (samples w) = 4"
  using pow_length [of "\<lparr>rate = 8000, samples = Float64 [1, 2]\<rparr>"
      "\<lparr>rate = 8000, samples = Int16 [3, 4, 5]\<rparr>"]
  by auto

section \<open>The precondition checks\<close>

lemma mul_rate_iff: "mul a b = Inl RateMismatch \<longleftrightarrow> rate a \<noteq> rate b"
  by (auto simp add: mul_def Let_def and_then_eq_Inl np_pad_not_rate fft_not_rate ifft_not_rate)

lemma pow_rate_iff: "pow a b = Inl RateMismatch \<longleftrightarrow> rate a \<noteq> rate b"
  by (auto simp add: pow_def Let_def and_then_eq_Inl np_pad_not_rate fft_not_rate ifft_not_rate
      ceil_log2_not_rate)

text \<open>
  C5. \<open>Concatenate\<close>, \<open>ConvolveCircular\<close> and \<open>ConvolveLinear\<close> each fail with the
  rate-mismatch error if and only if the rates of the two operands differ. \<open>Add\<close> never
  checks the rates: it fails with the length-mismatch error if and only if the two sample
  sequences differ in length, it fails in no other way, and when the lengths agree its
  result has the rate of the first operand, whatever the rate of the second.
\<close>

theorem rate_and_length_checks:
  "(rshift a b = Inl RateMismatch \<longleftrightarrow> rate a \<noteq> rate b) \<and>
   (mul a b = Inl RateMismatch \<longleftrightarrow> rate a \<noteq> rate b) \<and>
   (pow a b = Inl RateMismatch \<longleftrightarrow> rate a \<noteq> rate b) \<and>
   (add a b = Inl LengthMismatch \<longleftrightarrow> len (samples a) \<noteq> len (samples b)) \<and>
   (\<forall>e. add a b = Inl e \<longrightarrow> e = LengthMismatch) \<and>
   (len (samples a) = len (samples b) \<longrightarrow>
      add a b = Inr \<lparr>rate = rate a, samples = np_add (samples a) (samples b)\<rparr>)"
  by (simp add: mul_rate_iff pow_rate_iff) (simp add: rshift_def add_def Let_def)

theorem rate_and_length_checks_witness:
  "rshift \<lparr>rate = 44100, samples = Float64 [1]\<rparr> \<lparr>rate = 22050, samples = Float64 [2]\<rparr>
     = Inl RateMismatch \<and>
   mul \<lparr>rate = 44100, samples = Float64 [1]\<rparr> \<lparr>rate = 22050, samples = Float64 [2]\<rparr>
     = Inl RateMismatch \<and>
   pow \<lparr>rate = 44100, samples = Float64 [1]\<rparr> \<lparr>rate = 22050, samples = Float64 [2]\<rparr>
     = Inl RateMismatch \<and>
   add \<lparr>rate = 44100, samples = Float64 [1]\<rparr> \<lparr>rate = 22050, samples = Float64 [2]\<rparr>
     = Inr \<lparr>rate = 44100, samples = Float64 [3]\<rparr>"
  using rate_and_length_checks [of "\<lparr>rate = 44100, samples = Float64 [1]\<rparr>"
      "\<lparr>rate = 22050, samples = Float64 [2]\<rparr>"]
  by simp

section \<open>Synthesis of a phrase\<close>







section \<open>Concatenation\<close>

text \<open>
  C7. For every three waveforms \<open>a\<close>, \<open>b\<close>, \<open>c\<close> of the same rate, all four concatenations
  succeed and \<open>Concatenate(Concatenate(a, b), c)\<close> has the samples of
  \<open>Concatenate(a, Concatenate(b, c))\<close>; the samples of \<open>Concatenate(a, b)\<close> are those of \<open>a\<close>
  followed by those of \<open>b\<close>, and their number is the sum of the two lengths.
\<close>

theorem rshift_assoc:
  assumes "rate a = rate b" and "rate b = rate c"
  shows "\<exists>ab bc l r. rshift a b = Inr ab \<and> rshift b c = Inr bc \<and>
           rshift ab c = Inr l \<and> rshift a bc = Inr r \<and> samples l = samples r \<and>
           as_complex (samples ab) = as_complex (samples a) @ as_complex (samples b) \<and>
           len (samples ab) = len (samples a) + len (samples b)"
  using assms by (simp add: rshift_def Let_def np_concatenate_assoc)

theorem rshift_assoc_witness:
  "\<exists>l r. and_then (rshift \<lparr>rate = 8000, samples = Int16 [1]\<rparr> \<lparr>rate = 8000, samples = Float64 [2]\<rparr>)
            (\<lambda>ab. rshift ab \<lparr>rate = 8000, samples = Complex128 [3]\<rparr>) = Inr l \<and>
         and_then (rshift \<lparr>rate = 8000, samples = Float64 [2]\<rparr> \<lparr>rate = 8000, samples = Complex128 [3]\<rparr>)
            (\<lambda>bc. rshift \<lparr>rate = 8000, samples = Int16 [1]\<rparr> bc) = Inr r \<and>
         samples l = samples r"
  using rshift_assoc [of "\<lparr>rate = 8000, samples = Int16 [1]\<rparr>"
      "\<lparr>rate = 8000, samples = Float64 [2]\<rparr>" "\<lparr>rate = 8000, samples = Complex128 [3]\<rparr>"]
  by auto

section \<open>Mutation\<close>





section \<open>The empty phrase\<close>

lemma lookup_all_error: "lookup_all ns = Inl e \<Longrightarrow> \<exists>s. e = UnsupportedSymbol s"
  by (induction ns arbitrary: e) (auto simp: and_then_eq_Inl split: option.splits)

lemma generate_note_error: "generate_note f d = Inl e \<Longrightarrow> e = NegativeCount"
  by (auto simp: generate_note_def linspace_def Let_def and_then_eq_Inl split: if_splits)

lemma rshift_error: "rshift a b = Inl e \<Longrightarrow> e = RateMismatch"
  by (auto simp: rshift_def Let_def split: if_splits)

lemma shift_all_error:
  "shift_all audio hertz d = Inl e \<Longrightarrow> e = NegativeCount \<or> e = RateMismatch"
  by (induction audio hertz d rule: shift_all.induct)
     (auto simp: and_then_eq_Inl dest: generate_note_error rshift_error)

text \<open>
  C9. \<open>GenerateSequence\<close> of the empty list of notes fails with the empty-input error, for
  every duration, and no other list of notes makes it fail with that error.
\<close>

theorem audio_sequence_empty:
  "audio_sequence [] d = Inl EmptyInput \<and>
   (audio_sequence ns d = Inl EmptyInput \<longleftrightarrow> ns = [])"
  by (auto simp: audio_sequence_def and_then_eq_Inl
      dest: lookup_all_error generate_note_error shift_all_error)

section \<open>Addition\<close>

text \<open>
  C10. For every two waveforms \<open>a\<close> and \<open>b\<close> with the same number of samples, whatever
  their rates, \<open>Add(a, b)\<close> and \<open>Add(b, a)\<close> both succeed and have the same samples, as many
  as the operands have; the first result has the rate of \<open>a\<close>, the second the rate of \<open>b\<close>.
\<close>

theorem add_samples_commute:
  assumes "len (samples a) = len (samples b)"
  shows "\<exists>r s. add a b = Inr r \<and> add b a = Inr s \<and> samples r = samples s \<and>
           len (samples r) = len (samples a) \<and> rate r = rate a \<and> rate s = rate b"
  using assms by (simp add: add_def Let_def np_add_commute len_np_add)

theorem add_samples_commute_witness:
  "\<exists>r s. add \<lparr>rate = 44100, samples = Int16 [32767, 1]\<rparr> \<lparr>rate = 8000, samples = Int16 [1, 2]\<rparr> = Inr r \<and>
         add \<lparr>rate = 8000, samples = Int16 [1, 2]\<rparr> \<lparr>rate = 44100, samples = Int16 [32767, 1]\<rparr> = Inr s \<and>
         samples r = samples s \<and> rate r = 44100 \<and> rate s = 8000"
  using add_samples_commute [of "\<lparr>rate = 44100, samples = Int16 [32767, 1]\<rparr>"
      "\<lparr>rate = 8000, samples = Int16 [1, 2]\<rparr>"]
  by auto

end
